theory Spec2Isabelle
  imports Complex_Main "HOL-Library.List_Lexorder" "HOL-Library.Char_ord" "HOL-Library.Sublist"
begin

section \<open>JavaScript values of the finance tracker front end\<close>

text \<open>
  The React front end receives accounts, categories and transactions as JSON and keeps form
  fields as strings or numbers. A JavaScript number is \<open>NaN\<close> or a finite value; finite
  values are taken as exact reals (rounding of binary floating point and the infinities are
  left out). A value is \<open>undefined\<close>, \<open>null\<close>, a number, the empty string, or a
  non-empty string that is a decimal numeral (such as \<open>"12.50"\<close>), kept by the number it
  denotes.
\<close>

datatype number = NaN | Fin real

fun num_abs :: "number \<Rightarrow> number" where
  "num_abs NaN = NaN"
| "num_abs (Fin r) = Fin \<bar>r\<bar>"

fun num_neg :: "number \<Rightarrow> number" where
  "num_neg NaN = NaN"
| "num_neg (Fin r) = Fin (- r)"

fun num_add :: "number \<Rightarrow> number \<Rightarrow> number" where
  "num_add (Fin a) (Fin b) = Fin (a + b)"
| "num_add _ _ = NaN"

fun num_sub :: "number \<Rightarrow> number \<Rightarrow> number" where
  "num_sub (Fin a) (Fin b) = Fin (a - b)"
| "num_sub _ _ = NaN"

fun num_less :: "number \<Rightarrow> number \<Rightarrow> bool" where
  "num_less (Fin a) (Fin b) = (a < b)"
| "num_less _ _ = False"

datatype jsval = JUndefined | JNull | JNum number | JEmpty | JDec real

text \<open>Truthiness: \<open>undefined\<close>, \<open>null\<close>, \<open>NaN\<close>, \<open>0\<close> and \<open>''\<close> are falsy; a non-empty
  string is truthy, also \<open>"0"\<close>.\<close>

fun truthy :: "jsval \<Rightarrow> bool" where
  "truthy (JNum (Fin r)) = (r \<noteq> 0)"
| "truthy (JDec r) = True"
| "truthy _ = False"

text \<open>\<open>x || 0\<close>\<close>

definition or_zero :: "jsval \<Rightarrow> jsval" where
  "or_zero x = (if truthy x then x else JNum (Fin 0))"

text \<open>\<open>parseFloat(x)\<close> reads the string form of \<open>x\<close>: \<open>"undefined"\<close>, \<open>"null"\<close> and
  \<open>""\<close> give \<open>NaN\<close>.\<close>

fun parseFloat :: "jsval \<Rightarrow> number" where
  "parseFloat (JNum n) = n"
| "parseFloat (JDec r) = Fin r"
| "parseFloat _ = NaN"

text \<open>The coercion to a number that \<open>Math.abs\<close> and the global \<open>isNaN\<close> apply.\<close>

fun ToNumber :: "jsval \<Rightarrow> number" where
  "ToNumber JUndefined = NaN"
| "ToNumber JNull = Fin 0"
| "ToNumber (JNum n) = n"
| "ToNumber JEmpty = Fin 0"
| "ToNumber (JDec r) = Fin r"

definition Math_abs :: "jsval \<Rightarrow> number" where
  "Math_abs x = num_abs (ToNumber x)"

definition isNaN :: "jsval \<Rightarrow> bool" where
  "isNaN x \<longleftrightarrow> ToNumber x = NaN"

text \<open>\<open>n || 0\<close> on a number\<close>

fun num_or_zero :: "number \<Rightarrow> number" where
  "num_or_zero NaN = Fin 0"
| "num_or_zero (Fin r) = Fin r"

text \<open>The finite value that \<open>parseFloat(x || 0)\<close> and \<open>parseFloat(x) || 0\<close> read from
  \<open>x\<close>: a missing or non-numeric value counts as \<open>0\<close>.\<close>

fun num_val :: "jsval \<Rightarrow> real" where
  "num_val (JNum (Fin r)) = r"
| "num_val (JDec r) = r"
| "num_val _ = 0"

section \<open>Records delivered by the API\<close>

text \<open>
  Identifiers are integers. An amount is a JSON number, a decimal string or \<open>null\<close>. A
  string field that is \<open>null\<close> or missing is the empty string, which the code reads the
  same way (\<open>x || ''\<close>).
\<close>

record account =
  acc_id :: int
  acc_name :: string
  account_type :: string
  default_currency :: string
  opening_balance :: jsval
  current_balance :: jsval

record category =
  cat_id :: int
  cat_name :: string
  category_type :: string
  cat_description :: string

record transaction =
  tx_id :: int
  account_id :: int
  amount :: jsval
  amount_pkr :: jsval
  category_id :: "int option"
  team_id :: "int option"
  counterparty :: string
  transaction_date :: string
  description :: string

section \<open>Transaction form and balance impact preview (Transactions.jsx)\<close>

text \<open>
  The form state. A select holds \<open>''\<close> or the identifier of the chosen record, on which
  \<open>parseInt\<close> gives the identifier back; it is an \<open>int option\<close>, \<open>None\<close> for \<open>''\<close>.
  The counterparty is a string, \<open>''\<close> when absent.
\<close>

record formData =
  fd_account_id :: "int option"
  fd_amount :: jsval
  fd_description :: string
  fd_transaction_date :: string
  fd_category_id :: "int option"
  fd_team_id :: "int option"
  fd_counterparty :: string
  fd_currency :: string

text \<open>\<open>formData.counterparty && formData.counterparty !== 'External' &&
  accounts.some(a => a.name === formData.counterparty)\<close>\<close>

definition isInterAccountTransfer :: "account list \<Rightarrow> string \<Rightarrow> bool" where
  "isInterAccountTransfer accounts cp \<longleftrightarrow>
     cp \<noteq> [] \<and> cp \<noteq> ''External'' \<and> list_ex (\<lambda>a. acc_name a = cp) accounts"

text \<open>The \<open>actualAmount\<close> of the preview: starts at \<open>0\<close> and is set by the branch of the
  category type.\<close>

definition actualAmount :: "string \<Rightarrow> account list \<Rightarrow> string \<Rightarrow> number \<Rightarrow> number" where
  "actualAmount ctype accounts cp enteredAmount =
     (if ctype = ''expense'' then num_neg (num_abs enteredAmount)
      else if ctype = ''income'' then num_abs enteredAmount
      else if ctype = ''transfer'' then
        (if isInterAccountTransfer accounts cp then num_neg (num_abs enteredAmount)
         else enteredAmount)
      else Fin 0)"

text \<open>The second line of the preview, for the receiving account of an inter-account
  transfer.\<close>

record counter_entry =
  counterpartyAccount :: account
  counterpartyBalance :: number
  receiverAmount :: number
  counterpartyNewBalance :: number

definition counterparty_preview :: "account list \<Rightarrow> string \<Rightarrow> number \<Rightarrow> counter_entry option" where
  "counterparty_preview accounts cp enteredAmount =
     (case find (\<lambda>a. acc_name a = cp) accounts of
        None \<Rightarrow> None
      | Some ca \<Rightarrow>
          (let bal = parseFloat (or_zero (current_balance ca));
               recv = num_abs enteredAmount
           in Some \<lparr> counterpartyAccount = ca, counterpartyBalance = bal,
                     receiverAmount = recv, counterpartyNewBalance = num_add bal recv \<rparr>))"

record balance_impact =
  bi_account :: account
  bi_category :: category
  bi_currentBalance :: number
  bi_actualAmount :: number
  bi_newBalance :: number
  bi_counter :: "counter_entry option"
  bi_warning :: bool

datatype preview = Hidden | SelectPrompt | Impact balance_impact

definition balance_impact_preview :: "account list \<Rightarrow> category list \<Rightarrow> formData \<Rightarrow> preview" where
  "balance_impact_preview accounts categories fd =
     (if fd_account_id fd = None \<or> fd_amount fd = JEmpty \<or> fd_amount fd = JNum (Fin 0)
         \<or> fd_category_id fd = None
      then Hidden
      else
        (case (find (\<lambda>a. Some (acc_id a) = fd_account_id fd) accounts,
               find (\<lambda>c. Some (cat_id c) = fd_category_id fd) categories) of
           (Some acct, Some cat) \<Rightarrow>
             (let currentBalance = parseFloat (or_zero (current_balance acct));
                  enteredAmount = parseFloat (fd_amount fd);
                  cp = fd_counterparty fd;
                  act = actualAmount (category_type cat) accounts cp enteredAmount;
                  inter = (category_type cat = ''transfer'' \<and> isInterAccountTransfer accounts cp);
                  newBalance = num_add currentBalance act
              in Impact \<lparr> bi_account = acct, bi_category = cat,
                          bi_currentBalance = currentBalance,
                          bi_actualAmount = act,
                          bi_newBalance = newBalance,
                          bi_counter = (if inter \<and> cp \<noteq> [] then counterparty_preview accounts cp enteredAmount
                                        else None),
                          bi_warning = (num_less newBalance (Fin 0) \<and> num_less act (Fin 0)) \<rparr>)
         | _ \<Rightarrow> SelectPrompt))"


subsection \<open>Opening the form, entering the amount, submitting\<close>

text \<open>
  \<open>openModal(transaction)\<close> loads an existing transaction into the form, or resets the form
  for a new one (\<open>today\<close> is the current date as \<open>YYYY-MM-DD\<close>).
\<close>

definition openModal :: "string \<Rightarrow> transaction option \<Rightarrow> formData" where
  "openModal today tr =
     (case tr of
        Some t \<Rightarrow>
          \<lparr> fd_account_id = Some (account_id t),
            fd_amount = JNum (Math_abs (amount t)),
            fd_description = description t,
            fd_transaction_date = transaction_date t,
            fd_category_id = (if category_id t = Some 0 then None else category_id t),
            fd_team_id = (if team_id t = Some 0 then None else team_id t),
            fd_counterparty = counterparty t,
            fd_currency = ''PKR'' \<rparr>
      | None \<Rightarrow>
          \<lparr> fd_account_id = None,
            fd_amount = JNum (Fin 0),
            fd_description = [],
            fd_transaction_date = today,
            fd_category_id = None,
            fd_team_id = None,
            fd_counterparty = [],
            fd_currency = ''PKR'' \<rparr>)"

text \<open>
  The amount field is \<open><input type="number" step="0.01" min="0" required>\<close>. Its value
  after an edit is \<open>''\<close> or a valid decimal numeral; \<open>onChange\<close> stores that string.
\<close>

definition amount_onChange :: "real option \<Rightarrow> formData \<Rightarrow> formData" where
  "amount_onChange v fd = fd\<lparr> fd_amount := (case v of None \<Rightarrow> JEmpty | Some r \<Rightarrow> JDec r) \<rparr>"

text \<open>
  The browser raises the form's submit event only when every field satisfies its
  constraints. For the amount these are \<open>required\<close> (a value is present), \<open>min="0"\<close> and
  \<open>step="0.01"\<close> (a whole number of hundredths counted from the minimum). A field value
  that is not a number is displayed as the empty field.
\<close>

definition step_ok :: "real \<Rightarrow> bool" where
  "step_ok r \<longleftrightarrow> r * 100 = of_int \<lfloor>r * 100\<rfloor>"

fun amount_input_valid :: "jsval \<Rightarrow> bool" where
  "amount_input_valid (JDec r) = (0 \<le> r \<and> step_ok r)"
| "amount_input_valid (JNum (Fin r)) = (0 \<le> r \<and> step_ok r)"
| "amount_input_valid _ = False"

definition form_valid :: "formData \<Rightarrow> bool" where
  "form_valid fd \<longleftrightarrow>
     fd_account_id fd \<noteq> None \<and> amount_input_valid (fd_amount fd)
     \<and> fd_category_id fd \<noteq> None \<and> fd_transaction_date fd \<noteq> []"

text \<open>The \<open>transactionData\<close> that \<open>handleSubmit\<close> sends to the API (\<open>create\<close> or
  \<open>update\<close>).\<close>

record transactionData =
  td_account_id :: "int option"
  td_amount :: number
  td_description :: string
  td_transaction_date :: string
  td_category_id :: "int option"
  td_team_id :: "int option"
  td_counterparty :: string
  td_currency :: string

definition handleSubmit :: "formData \<Rightarrow> transactionData" where
  "handleSubmit fd =
     \<lparr> td_account_id = fd_account_id fd,
       td_amount = parseFloat (fd_amount fd),
       td_description = fd_description fd,
       td_transaction_date = fd_transaction_date fd,
       td_category_id = fd_category_id fd,
       td_team_id = fd_team_id fd,
       td_counterparty = fd_counterparty fd,
       td_currency = fd_currency fd \<rparr>"

definition submit :: "formData \<Rightarrow> transactionData option" where
  "submit fd = (if form_valid fd then Some (handleSubmit fd) else None)"

section \<open>Filtering the transaction list (Transactions.jsx)\<close>

text \<open>
  The quick filters. The two selects hold \<open>''\<close> or an identifier; the two dates are strings,
  \<open>''\<close> when not set. Dates are compared as strings (\<open>>=\<close>, \<open><=\<close>), which is the
  lexicographic order of their characters.
\<close>

record filters =
  accountId :: "int option"
  categoryId :: "int option"
  startDate :: string
  endDate :: string

record page_state =
  allTransactions :: "transaction list"
  transactions :: "transaction list"
  filters :: filters

text \<open>\<open>applyFilters(transactionsToFilter = allTransactions)\<close>: each active filter narrows
  \<open>filtered\<close> in turn, and the result is stored as the listed transactions.\<close>

definition applyFilters :: "transaction list option \<Rightarrow> page_state \<Rightarrow> page_state" where
  "applyFilters arg s =
     (let transactionsToFilter = (case arg of None \<Rightarrow> allTransactions s | Some xs \<Rightarrow> xs);
          f = filters s;
          filtered0 = transactionsToFilter;
          filtered1 = (case accountId f of
                         None \<Rightarrow> filtered0
                       | Some a \<Rightarrow> filter (\<lambda>t. account_id t = a) filtered0);
          filtered2 = (case categoryId f of
                         None \<Rightarrow> filtered1
                       | Some c \<Rightarrow> filter (\<lambda>t. category_id t = Some c) filtered1);
          filtered3 = (if startDate f \<noteq> []
                       then filter (\<lambda>t. transaction_date t \<ge> startDate f) filtered2
                       else filtered2);
          filtered4 = (if endDate f \<noteq> []
                       then filter (\<lambda>t. transaction_date t \<le> endDate f) filtered3
                       else filtered3)
      in s\<lparr> transactions := filtered4 \<rparr>)"

text \<open>A transaction satisfies the filter setting when it passes each filter that is set.\<close>

definition passes :: "filters \<Rightarrow> transaction \<Rightarrow> bool" where
  "passes f t \<longleftrightarrow>
     (case accountId f of None \<Rightarrow> True | Some a \<Rightarrow> account_id t = a)
     \<and> (case categoryId f of None \<Rightarrow> True | Some c \<Rightarrow> category_id t = Some c)
     \<and> (if startDate f = [] then True else startDate f \<le> transaction_date t)
     \<and> (if endDate f = [] then True else transaction_date t \<le> endDate f)"

text \<open>
  The dates of the page are in the form \<open>YYYY-MM-DD\<close>: the value of a date input, and
  \<open>toISOString().split('T')[0]\<close> for the initial filter. \<open>iso_date y m d\<close> is that string
  for a year below 10000.
\<close>

definition digit :: "nat \<Rightarrow> char" where
  "digit n = char_of (48 + n)"

definition two_digits :: "nat \<Rightarrow> string" where
  "two_digits n = [digit (n div 10), digit (n mod 10)]"

definition four_digits :: "nat \<Rightarrow> string" where
  "four_digits n = two_digits (n div 100) @ two_digits (n mod 100)"

definition iso_date :: "nat \<Rightarrow> nat \<Rightarrow> nat \<Rightarrow> string" where
  "iso_date y m d = four_digits y @ ''-'' @ two_digits m @ ''-'' @ two_digits d"

section \<open>Summary statistics of the listed transactions (Transactions.jsx)\<close>

text \<open>\<open>categories.find(c => c.id === t.category_id)\<close>: the first category with the
  transaction's category identifier; none when the identifier is \<open>null\<close>.\<close>

definition find_category :: "category list \<Rightarrow> int option \<Rightarrow> category option" where
  "find_category categories cid = find (\<lambda>c. Some (cat_id c) = cid) categories"

text \<open>\<open>category && category.category_type === ty\<close>\<close>

definition has_category_type :: "category list \<Rightarrow> string \<Rightarrow> transaction \<Rightarrow> bool" where
  "has_category_type categories ty t =
     (case find_category categories (category_id t) of
        None \<Rightarrow> False
      | Some c \<Rightarrow> category_type c = ty)"

definition totalIncome :: "category list \<Rightarrow> transaction list \<Rightarrow> number" where
  "totalIncome categories txs =
     foldl (\<lambda>sum t. if has_category_type categories ''income'' t
                     then num_add sum (num_abs (parseFloat (or_zero (amount_pkr t))))
                     else sum)
       (Fin 0) txs"

definition totalExpenses :: "category list \<Rightarrow> transaction list \<Rightarrow> number" where
  "totalExpenses categories txs =
     foldl (\<lambda>sum t. if has_category_type categories ''expense'' t
                     then num_add sum (num_abs (parseFloat (or_zero (amount_pkr t))))
                     else sum)
       (Fin 0) txs"

definition netAmount :: "category list \<Rightarrow> transaction list \<Rightarrow> number" where
  "netAmount categories txs = num_sub (totalIncome categories txs) (totalExpenses categories txs)"

text \<open>The base-currency amount of a transaction, as the sums read it.\<close>

definition amount_base :: "transaction \<Rightarrow> real" where
  "amount_base t = num_val (amount_pkr t)"

section \<open>Dashboard statistics (Dashboard.jsx, loadDashboardData)\<close>

text \<open>
  The transactions are those the API returns for the filter parameters. The two sums skip
  a transaction whose \<open>category_id\<close> is falsy (\<open>null\<close> or \<open>0\<close>), whose category is not
  found, or whose category has another type, and add \<open>Math.abs(parseFloat(amount) || 0)\<close>
  otherwise.
\<close>

definition dashboard_totalExpenses :: "category list \<Rightarrow> transaction list \<Rightarrow> number" where
  "dashboard_totalExpenses categoriesData txs =
     foldl (\<lambda>sum t.
              if category_id t = None \<or> category_id t = Some 0 then sum
              else (case find (\<lambda>cat. Some (cat_id cat) = category_id t) categoriesData of
                      None \<Rightarrow> sum
                    | Some c \<Rightarrow>
                        if \<not> (category_type c = ''expense'') then sum
                        else num_add sum (num_abs (num_or_zero (parseFloat (amount t))))))
       (Fin 0) txs"

definition dashboard_totalIncome :: "category list \<Rightarrow> transaction list \<Rightarrow> number" where
  "dashboard_totalIncome categoriesData txs =
     foldl (\<lambda>sum t.
              if category_id t = None \<or> category_id t = Some 0 then sum
              else (case find (\<lambda>cat. Some (cat_id cat) = category_id t) categoriesData of
                      None \<Rightarrow> sum
                    | Some c \<Rightarrow>
                        if \<not> (category_type c = ''income'') then sum
                        else num_add sum (num_abs (num_or_zero (parseFloat (amount t))))))
       (Fin 0) txs"

definition profitAndLoss :: "category list \<Rightarrow> transaction list \<Rightarrow> number" where
  "profitAndLoss categoriesData txs =
     num_sub (dashboard_totalIncome categoriesData txs) (dashboard_totalExpenses categoriesData txs)"

section \<open>Opening balance as of the start date (Transactions.jsx)\<close>







subsection \<open>The converted opening balance\<close>






section \<open>The category form (Categories.jsx)\<close>

record type_option =
  opt_value :: string
  opt_label :: string

definition categoryTypes :: "type_option list" where
  "categoryTypes =
     [\<lparr> opt_value = ''income'', opt_label = ''Income'' \<rparr>,
      \<lparr> opt_value = ''expense'', opt_label = ''Expense'' \<rparr>]"

record category_form =
  cf_name :: string
  cf_category_type :: string
  cf_description :: string

text \<open>\<open>openModal(category)\<close> of the category page: an existing category is loaded with its
  own type, a new one starts as income.\<close>

definition category_openModal :: "category option \<Rightarrow> category_form" where
  "category_openModal cat =
     (case cat of
        Some c \<Rightarrow> \<lparr> cf_name = cat_name c, cf_category_type = category_type c,
                    cf_description = cat_description c \<rparr>
      | None \<Rightarrow> \<lparr> cf_name = [], cf_category_type = ''income'', cf_description = [] \<rparr>)"

text \<open>The type select renders one option per entry of \<open>categoryTypes\<close>; choosing the
  \<open>i\<close>-th option stores its value.\<close>

definition choose_type :: "nat \<Rightarrow> category_form \<Rightarrow> category_form" where
  "choose_type i fd =
     (if i < length categoryTypes then fd\<lparr> cf_category_type := opt_value (categoryTypes ! i) \<rparr>
      else fd)"

text \<open>The category types that the transaction form tells apart (amount hint and balance
  impact of Transactions.jsx).\<close>

definition recognized :: "string \<Rightarrow> bool" where
  "recognized ty \<longleftrightarrow> ty = ''income'' \<or> ty = ''expense'' \<or> ty = ''transfer''"

section \<open>The dashboard filter (MonthFilter component)\<close>

text \<open>
  All fields are strings; \<open>timeRange\<close> is one of \<open>all\<close>, \<open>thisMonth\<close>, \<open>lastMonth\<close>,
  \<open>thisYear\<close>, \<open>lastYear\<close>, \<open>custom\<close>, the option values of its select.
\<close>

record dashboard_filters =
  df_startDate :: string
  df_endDate :: string
  df_accountId :: string
  df_teamId :: string
  df_categoryId :: string
  df_timeRange :: string

record date_range =
  range_start :: string
  range_end :: string

text \<open>The object that \<open>getTimeRangeOptions()\<close> returns. Its dates are computed from the
  system clock and time zone at the call and are taken as given.\<close>

record time_range_options =
  thisMonth :: date_range
  lastMonth :: date_range
  thisYear :: date_range
  lastYear :: date_range

text \<open>\<open>ranges[timeRange]\<close>, for the keys the object defines itself.\<close>

definition range_of :: "time_range_options \<Rightarrow> string \<Rightarrow> date_range option" where
  "range_of ranges k =
     (if k = ''thisMonth'' then Some (thisMonth ranges)
      else if k = ''lastMonth'' then Some (lastMonth ranges)
      else if k = ''thisYear'' then Some (thisYear ranges)
      else if k = ''lastYear'' then Some (lastYear ranges)
      else None)"

definition handleTimeRangeChange ::
  "time_range_options \<Rightarrow> string \<Rightarrow> dashboard_filters \<Rightarrow> dashboard_filters" where
  "handleTimeRangeChange ranges timeRange flt =
     (let newFilters = flt\<lparr> df_timeRange := timeRange \<rparr> in
      if timeRange = ''all'' then newFilters\<lparr> df_startDate := [], df_endDate := [] \<rparr>
      else if timeRange = ''custom'' then newFilters
      else (case range_of ranges timeRange of
              Some r \<Rightarrow> newFilters\<lparr> df_startDate := range_start r, df_endDate := range_end r \<rparr>
            | None \<Rightarrow> newFilters))"

text \<open>\<open>{ ...filters, [field]: value }\<close> for the fields of the filter state.\<close>

definition set_field :: "string \<Rightarrow> string \<Rightarrow> dashboard_filters \<Rightarrow> dashboard_filters" where
  "set_field field v flt =
     (if field = ''startDate'' then flt\<lparr> df_startDate := v \<rparr>
      else if field = ''endDate'' then flt\<lparr> df_endDate := v \<rparr>
      else if field = ''accountId'' then flt\<lparr> df_accountId := v \<rparr>
      else if field = ''teamId'' then flt\<lparr> df_teamId := v \<rparr>
      else if field = ''categoryId'' then flt\<lparr> df_categoryId := v \<rparr>
      else if field = ''timeRange'' then flt\<lparr> df_timeRange := v \<rparr>
      else flt)"

definition handleFilterChange :: "string \<Rightarrow> string \<Rightarrow> dashboard_filters \<Rightarrow> dashboard_filters" where
  "handleFilterChange field v flt =
     (let newFilters = set_field field v flt in
      if field = ''startDate'' \<or> field = ''endDate'' then newFilters\<lparr> df_timeRange := ''custom'' \<rparr>
      else newFilters)"

section \<open>Currency formatting (services/api)\<close>

text \<open>
  \<open>currency\<close> defaults to \<open>'PKR'\<close> when the argument is left out (\<open>None\<close>). Two services
  of the runtime are parameters: \<open>Intl_format locale code n\<close> is
  \<open>new Intl.NumberFormat(locale, {style: 'currency', currency: code, ...}).format(n)\<close>, with
  \<open>None\<close> when it throws, and \<open>toFixed n d\<close> is \<open>n.toFixed(d)\<close>.
\<close>

fun num_ge :: "number \<Rightarrow> real \<Rightarrow> bool" where
  "num_ge (Fin a) b = (a \<ge> b)"
| "num_ge NaN b = False"

fun num_div :: "number \<Rightarrow> real \<Rightarrow> number" where
  "num_div (Fin a) b = Fin (a / b)"
| "num_div NaN b = NaN"

definition formatCurrency ::
  "(string \<Rightarrow> string \<Rightarrow> number \<Rightarrow> string option) \<Rightarrow> (number \<Rightarrow> nat \<Rightarrow> string)
     \<Rightarrow> jsval \<Rightarrow> string option \<Rightarrow> string" where
  "formatCurrency Intl_format toFixed amt currency_arg =
     (let currency = (case currency_arg of None \<Rightarrow> ''PKR'' | Some c \<Rightarrow> c) in
      if isNaN amt \<or> amt = JNull \<or> amt = JUndefined then
        (let symbol = (if currency = ''USD'' then ''$'' else ''Rs.'') in symbol @ ''0.00'')
      else
        (let locale = (if currency = ''USD'' then ''en-US'' else ''en-PK'');
             currencyCode = (if currency = ''USD'' then ''USD'' else ''PKR'')
         in case Intl_format locale currencyCode (ToNumber amt) of
              Some s \<Rightarrow> s
            | None \<Rightarrow>
                (let symbol = (if currency = ''USD'' then ''$'' else ''Rs.'')
                 in symbol @ toFixed (Math_abs amt) 2)))"

definition formatCurrencyCompact ::
  "(number \<Rightarrow> nat \<Rightarrow> string) \<Rightarrow> jsval \<Rightarrow> string option \<Rightarrow> string" where
  "formatCurrencyCompact toFixed amt currency_arg =
     (let currency = (case currency_arg of None \<Rightarrow> ''PKR'' | Some c \<Rightarrow> c) in
      if isNaN amt \<or> amt = JNull \<or> amt = JUndefined then
        (let symbol = (if currency = ''USD'' then ''$'' else ''Rs.'') in symbol @ ''0'')
      else
        (let absAmount = Math_abs amt;
             symbol = (if currency = ''USD'' then ''$'' else ''Rs.'');
             sign = (if num_less (ToNumber amt) (Fin 0) then ''-'' else [])
         in if num_ge absAmount 10000000
            then sign @ symbol @ toFixed (num_div absAmount 10000000) 1 @ ''Cr''
            else if num_ge absAmount 100000
            then sign @ symbol @ toFixed (num_div absAmount 100000) 1 @ ''L''
            else if num_ge absAmount 1000
            then sign @ symbol @ toFixed (num_div absAmount 1000) 1 @ ''K''
            else sign @ symbol @ toFixed absAmount 0))"

section \<open>Sample data\<close>

definition ex_accounts :: "account list" where
  "ex_accounts =
     [\<lparr> acc_id = 1, acc_name = ''Cash'', account_type = ''asset'', default_currency = ''PKR'',
         opening_balance = JDec 1000, current_balance = JDec 1300 \<rparr>,
      \<lparr> acc_id = 2, acc_name = ''Bank'', account_type = ''asset'', default_currency = ''PKR'',
         opening_balance = JDec 0, current_balance = JDec 0 \<rparr>]"

definition ex_categories :: "category list" where
  "ex_categories =
     [\<lparr> cat_id = 1, cat_name = ''Salary'', category_type = ''income'', cat_description = [] \<rparr>,
      \<lparr> cat_id = 2, cat_name = ''Rent'', category_type = ''expense'', cat_description = [] \<rparr>,
      \<lparr> cat_id = 3, cat_name = ''Move'', category_type = ''transfer'', cat_description = [] \<rparr>]"

definition ex_form :: "int \<Rightarrow> real \<Rightarrow> string \<Rightarrow> formData" where
  "ex_form cid a cp =
     \<lparr> fd_account_id = Some 1, fd_amount = JDec a, fd_description = [],
       fd_transaction_date = ''2024-01-02'', fd_category_id = Some cid, fd_team_id = None,
       fd_counterparty = cp, fd_currency = ''PKR'' \<rparr>"

definition ex_tx :: "int \<Rightarrow> int \<Rightarrow> real \<Rightarrow> int option \<Rightarrow> string \<Rightarrow> transaction" where
  "ex_tx i a v c d =
     \<lparr> tx_id = i, account_id = a, amount = JDec v, amount_pkr = JDec v, category_id = c,
       team_id = None, counterparty = [], transaction_date = d, description = [] \<rparr>"

definition ex_transactions :: "transaction list" where
  "ex_transactions =
     [ex_tx 1 1 (- 200) (Some 2) ''2024-01-01'',
      ex_tx 2 1 500 (Some 1) ''2024-01-02'',
      ex_tx 3 1 (- 300) (Some 3) ''2024-01-15'',
      ex_tx 4 2 300 (Some 3) ''2024-01-15'',
      ex_tx 5 2 (- 40) None ''2024-01-31'',
      ex_tx 6 2 25 (Some 9) ''2024-02-01'']"








section \<open>The signed effect of a transaction\<close>

lemma Impact_fields:
  assumes "balance_impact_preview accounts categories fd = Impact bi"
  shows "bi_actualAmount bi =
           actualAmount (category_type (bi_category bi)) accounts (fd_counterparty fd)
             (parseFloat (fd_amount fd))"
    and "bi_counter bi =
           (if category_type (bi_category bi) = ''transfer''
               \<and> isInterAccountTransfer accounts (fd_counterparty fd)
            then counterparty_preview accounts (fd_counterparty fd) (parseFloat (fd_amount fd))
            else None)"
    and "bi_newBalance bi = num_add (bi_currentBalance bi) (bi_actualAmount bi)"
    and "find (\<lambda>c. Some (cat_id c) = fd_category_id fd) categories = Some (bi_category bi)"
  using assms
  by (auto simp: balance_impact_preview_def isInterAccountTransfer_def Let_def
           split: if_splits option.splits)

text \<open>
  C1. When the preview shows an impact for an entered amount \<open>e \<ge> 0\<close>, a category of type
  income gives the signed effect \<open>+e\<close> on the account and a category of type expense gives
  \<open>-e\<close>; the new balance of the account is its current balance plus that effect.
\<close>

theorem income_expense_effect:
  assumes "balance_impact_preview accounts categories fd = Impact bi"
      and "parseFloat (fd_amount fd) = Fin e" and "0 \<le> e"
  shows "(category_type (bi_category bi) = ''income'' \<longrightarrow> bi_actualAmount bi = Fin e)
       \<and> (category_type (bi_category bi) = ''expense'' \<longrightarrow> bi_actualAmount bi = Fin (- e))
       \<and> bi_newBalance bi = num_add (bi_currentBalance bi) (bi_actualAmount bi)"
  using Impact_fields(1,3)[OF assms(1)] assms(2,3) by (simp add: actualAmount_def)

theorem income_expense_effect_witness:
  "(\<exists>bi. balance_impact_preview ex_accounts ex_categories (ex_form 1 500 []) = Impact bi
        \<and> parseFloat (fd_amount (ex_form 1 500 [])) = Fin 500 \<and> (0::real) \<le> 500
        \<and> category_type (bi_category bi) = ''income'' \<and> bi_actualAmount bi = Fin 500)
   \<and> (\<exists>bi. balance_impact_preview ex_accounts ex_categories (ex_form 2 200 []) = Impact bi
        \<and> parseFloat (fd_amount (ex_form 2 200 [])) = Fin 200 \<and> (0::real) \<le> 200
        \<and> category_type (bi_category bi) = ''expense'' \<and> bi_actualAmount bi = Fin (- 200))"
proof -
  obtain bi where i: "balance_impact_preview ex_accounts ex_categories (ex_form 1 500 []) = Impact bi"
      and ci: "category_type (bi_category bi) = ''income''"
    by (simp add: balance_impact_preview_def ex_accounts_def ex_categories_def ex_form_def Let_def)
  obtain bx where x: "balance_impact_preview ex_accounts ex_categories (ex_form 2 200 []) = Impact bx"
      and cx: "category_type (bi_category bx) = ''expense''"
    by (simp add: balance_impact_preview_def ex_accounts_def ex_categories_def ex_form_def Let_def)
  have pi: "parseFloat (fd_amount (ex_form 1 500 [])) = Fin 500"
    and px: "parseFloat (fd_amount (ex_form 2 200 [])) = Fin 200"
    by (simp_all add: ex_form_def)
  from income_expense_effect[OF i pi] ci have "bi_actualAmount bi = Fin 500" by simp
  moreover from income_expense_effect[OF x px] cx have "bi_actualAmount bx = Fin (- 200)" by simp
  ultimately show ?thesis using i ci x cx pi px by auto
qed

text \<open>
  C2. For a transfer whose counterparty is non-empty, is not \<open>External\<close> and is the name of
  a known account, with entered amount \<open>e \<ge> 0\<close>: the effect on the source account is
  \<open>-e\<close>, and the preview carries a counter-entry on the account of that name, receiving
  \<open>+e\<close> on top of its balance.
\<close>

theorem transfer_known_counterparty:
  assumes "balance_impact_preview accounts categories fd = Impact bi"
      and "category_type (bi_category bi) = ''transfer''"
      and "fd_counterparty fd \<noteq> []" and "fd_counterparty fd \<noteq> ''External''"
      and "a \<in> set accounts" and "acc_name a = fd_counterparty fd"
      and "parseFloat (fd_amount fd) = Fin e" and "0 \<le> e"
  shows "bi_actualAmount bi = Fin (- e)
       \<and> (\<exists>ce. bi_counter bi = Some ce
              \<and> counterpartyAccount ce \<in> set accounts
              \<and> acc_name (counterpartyAccount ce) = fd_counterparty fd
              \<and> receiverAmount ce = Fin e
              \<and> counterpartyNewBalance ce = num_add (counterpartyBalance ce) (Fin e))"
proof -
  have inter: "isInterAccountTransfer accounts (fd_counterparty fd)"
    using assms(3-6) by (auto simp: isInterAccountTransfer_def list_ex_iff)
  have eff: "bi_actualAmount bi = Fin (- e)"
    using Impact_fields(1)[OF assms(1)] assms(2,7,8) inter by (simp add: actualAmount_def)
  obtain ca where ca: "find (\<lambda>a. acc_name a = fd_counterparty fd) accounts = Some ca"
    using assms(5,6) by (cases "find (\<lambda>a. acc_name a = fd_counterparty fd) accounts")
      (auto simp: find_None_iff)
  then have ca_in: "ca \<in> set accounts" and ca_name: "acc_name ca = fd_counterparty fd"
    by (auto simp: find_Some_iff)
  have "bi_counter bi = counterparty_preview accounts (fd_counterparty fd) (Fin e)"
    using Impact_fields(2)[OF assms(1)] assms(2,7) inter by simp
  then show ?thesis
    using eff ca ca_in ca_name assms(8) by (simp add: counterparty_preview_def Let_def)
qed

theorem transfer_known_counterparty_witness:
  "\<exists>bi. balance_impact_preview ex_accounts ex_categories (ex_form 3 300 ''Bank'') = Impact bi
      \<and> category_type (bi_category bi) = ''transfer''
      \<and> bi_actualAmount bi = Fin (- 300)
      \<and> (\<exists>ce. bi_counter bi = Some ce \<and> acc_name (counterpartyAccount ce) = ''Bank''
             \<and> receiverAmount ce = Fin 300 \<and> counterpartyNewBalance ce = Fin 300)"
proof -
  let ?fd = "ex_form 3 300 ''Bank''"
  let ?a = "\<lparr> acc_id = 2, acc_name = ''Bank'', account_type = ''asset'', default_currency = ''PKR'',
         opening_balance = JDec 0, current_balance = JDec 0 \<rparr>"
  obtain bi where i: "balance_impact_preview ex_accounts ex_categories ?fd = Impact bi"
      and c: "category_type (bi_category bi) = ''transfer''"
      and b: "\<forall>ce. bi_counter bi = Some ce \<longrightarrow> counterpartyBalance ce = Fin 0"
    by (simp add: balance_impact_preview_def ex_accounts_def ex_categories_def ex_form_def
          counterparty_preview_def or_zero_def isInterAccountTransfer_def Let_def)
  have h: "fd_counterparty ?fd \<noteq> []" "fd_counterparty ?fd \<noteq> ''External''"
      "?a \<in> set ex_accounts" "acc_name ?a = fd_counterparty ?fd"
      "parseFloat (fd_amount ?fd) = Fin 300" "(0::real) \<le> 300"
    by (simp_all add: ex_form_def ex_accounts_def)
  from transfer_known_counterparty[OF i c h] b
  have "bi_actualAmount bi = Fin (- 300)
       \<and> (\<exists>ce. bi_counter bi = Some ce \<and> acc_name (counterpartyAccount ce) = ''Bank''
             \<and> receiverAmount ce = Fin 300 \<and> counterpartyNewBalance ce = Fin 300)"
    by (auto simp: ex_form_def)
  then show ?thesis using i c by blast
qed

text \<open>
  C3. For a transfer whose counterparty is absent (\<open>''\<close>) or \<open>External\<close>, the effect on the
  account is the entered value with the sign the user gave it, and the preview carries no
  counter-entry.
\<close>

theorem transfer_external:
  assumes "balance_impact_preview accounts categories fd = Impact bi"
      and "category_type (bi_category bi) = ''transfer''"
      and "fd_counterparty fd = [] \<or> fd_counterparty fd = ''External''"
  shows "bi_actualAmount bi = parseFloat (fd_amount fd) \<and> bi_counter bi = None"
proof -
  have "\<not> isInterAccountTransfer accounts (fd_counterparty fd)"
    using assms(3) by (auto simp: isInterAccountTransfer_def)
  then show ?thesis
    using Impact_fields(1,2)[OF assms(1)] assms(2) by (simp add: actualAmount_def)
qed

theorem transfer_external_witness:
  "(\<exists>bi. balance_impact_preview ex_accounts ex_categories (ex_form 3 (- 50) ''External'') = Impact bi
        \<and> category_type (bi_category bi) = ''transfer''
        \<and> bi_actualAmount bi = Fin (- 50) \<and> bi_counter bi = None)
   \<and> (\<exists>bi. balance_impact_preview ex_accounts ex_categories (ex_form 3 50 []) = Impact bi
        \<and> category_type (bi_category bi) = ''transfer''
        \<and> bi_actualAmount bi = Fin 50 \<and> bi_counter bi = None)"
proof -
  obtain bi where i: "balance_impact_preview ex_accounts ex_categories (ex_form 3 (- 50) ''External'') = Impact bi"
      and ci: "category_type (bi_category bi) = ''transfer''"
    by (simp add: balance_impact_preview_def ex_accounts_def ex_categories_def ex_form_def Let_def)
  obtain bj where j: "balance_impact_preview ex_accounts ex_categories (ex_form 3 50 []) = Impact bj"
      and cj: "category_type (bi_category bj) = ''transfer''"
    by (simp add: balance_impact_preview_def ex_accounts_def ex_categories_def ex_form_def Let_def)
  have "bi_actualAmount bi = Fin (- 50) \<and> bi_counter bi = None"
    using transfer_external[OF i ci] by (simp add: ex_form_def)
  moreover have "bi_actualAmount bj = Fin 50 \<and> bi_counter bj = None"
    using transfer_external[OF j cj] by (simp add: ex_form_def)
  ultimately show ?thesis using i ci j cj by blast
qed

section \<open>Totals by category type\<close>

lemma parseFloat_or_zero: "parseFloat (or_zero x) = Fin (num_val x)"
  by (cases x rule: num_val.cases) (simp_all add: or_zero_def)

lemma num_or_zero_parseFloat: "num_or_zero (parseFloat x) = Fin (num_val x)"
  by (cases x rule: num_val.cases) simp_all

lemma foldl_add_if:
  "foldl (\<lambda>sum t. if P t then num_add sum (Fin (f t)) else sum) (Fin s) xs
     = Fin (s + sum_list (map f (filter P xs)))"
  by (induction xs arbitrary: s) (simp_all add: add.assoc)

lemma totalIncome_sum:
  "totalIncome cats txs = Fin (\<Sum>t\<leftarrow>filter (has_category_type cats ''income'') txs. \<bar>amount_base t\<bar>)"
  unfolding totalIncome_def parseFloat_or_zero num_abs.simps amount_base_def
  by (simp add: foldl_add_if)

lemma totalExpenses_sum:
  "totalExpenses cats txs = Fin (\<Sum>t\<leftarrow>filter (has_category_type cats ''expense'') txs. \<bar>amount_base t\<bar>)"
  unfolding totalExpenses_def parseFloat_or_zero num_abs.simps amount_base_def
  by (simp add: foldl_add_if)

lemma dashboard_step:
  "(if category_id t = None \<or> category_id t = Some 0 then acc
    else (case find (\<lambda>cat. Some (cat_id cat) = category_id t) cats of
            None \<Rightarrow> acc
          | Some c \<Rightarrow> if \<not> (category_type c = ty) then acc
                      else num_add acc (num_abs (num_or_zero (parseFloat (amount t))))))
   = (if category_id t \<noteq> Some 0 \<and> has_category_type cats ty t
      then num_add acc (Fin \<bar>num_val (amount t)\<bar>) else acc)"
proof -
  have "find (\<lambda>c. False) cats = None" by (induction cats) simp_all
  then show ?thesis
    by (cases "category_id t")
       (auto simp: has_category_type_def find_category_def num_or_zero_parseFloat
             split: option.splits)
qed

lemma dashboard_totalIncome_sum:
  "dashboard_totalIncome cats txs =
     Fin (\<Sum>t\<leftarrow>filter (\<lambda>t. category_id t \<noteq> Some 0 \<and> has_category_type cats ''income'' t) txs.
            \<bar>num_val (amount t)\<bar>)"
  unfolding dashboard_totalIncome_def dashboard_step by (simp add: foldl_add_if)

lemma dashboard_totalExpenses_sum:
  "dashboard_totalExpenses cats txs =
     Fin (\<Sum>t\<leftarrow>filter (\<lambda>t. category_id t \<noteq> Some 0 \<and> has_category_type cats ''expense'' t) txs.
            \<bar>num_val (amount t)\<bar>)"
  unfolding dashboard_totalExpenses_def dashboard_step by (simp add: foldl_add_if)

lemma sum_agree:
  assumes "\<forall>t\<in>set txs. num_val (amount t) = amount_base t \<and> category_id t \<noteq> Some 0"
  shows "(\<Sum>t\<leftarrow>filter (\<lambda>t. category_id t \<noteq> Some 0 \<and> P t) txs. \<bar>num_val (amount t)\<bar>)
       = (\<Sum>t\<leftarrow>filter P txs. \<bar>amount_base t\<bar>)"
  using assms by (induction txs) auto

text \<open>
  C4 (as amended). For every list of transactions, the income total of the transactions page
  is the sum of the absolute values \<open>|amount_base|\<close> over the transactions whose matched
  category has type income, the expense total is the same sum over those of type expense,
  and the net amount is the income total minus the expense total. A transaction with no
  category, an unknown category or a transfer category adds to neither total. The dashboard
  reports the same three figures for transactions whose \<open>amount\<close> equals their
  \<open>amount_base\<close> and whose category identifier is not \<open>0\<close>.
\<close>

theorem totals_by_category_type:
  "totalIncome cats txs
     = Fin (\<Sum>t\<leftarrow>filter (has_category_type cats ''income'') txs. \<bar>amount_base t\<bar>)
   \<and> totalExpenses cats txs
     = Fin (\<Sum>t\<leftarrow>filter (has_category_type cats ''expense'') txs. \<bar>amount_base t\<bar>)
   \<and> netAmount cats txs
     = Fin ((\<Sum>t\<leftarrow>filter (has_category_type cats ''income'') txs. \<bar>amount_base t\<bar>)
            - (\<Sum>t\<leftarrow>filter (has_category_type cats ''expense'') txs. \<bar>amount_base t\<bar>))
   \<and> (category_id u = None \<or> find_category cats (category_id u) = None
        \<or> has_category_type cats ''transfer'' u
       \<longrightarrow> totalIncome cats (xs @ u # ys) = totalIncome cats (xs @ ys)
         \<and> totalExpenses cats (xs @ u # ys) = totalExpenses cats (xs @ ys))
   \<and> ((\<forall>t\<in>set txs. num_val (amount t) = amount_base t \<and> category_id t \<noteq> Some 0)
       \<longrightarrow> dashboard_totalIncome cats txs = totalIncome cats txs
         \<and> dashboard_totalExpenses cats txs = totalExpenses cats txs
         \<and> profitAndLoss cats txs = netAmount cats txs)"
proof (intro conjI impI)
  show "totalIncome cats txs = Fin (\<Sum>t\<leftarrow>filter (has_category_type cats ''income'') txs. \<bar>amount_base t\<bar>)"
    by (rule totalIncome_sum)
  show "totalExpenses cats txs = Fin (\<Sum>t\<leftarrow>filter (has_category_type cats ''expense'') txs. \<bar>amount_base t\<bar>)"
    by (rule totalExpenses_sum)
  show "netAmount cats txs
     = Fin ((\<Sum>t\<leftarrow>filter (has_category_type cats ''income'') txs. \<bar>amount_base t\<bar>)
            - (\<Sum>t\<leftarrow>filter (has_category_type cats ''expense'') txs. \<bar>amount_base t\<bar>))"
    by (simp add: netAmount_def totalIncome_sum totalExpenses_sum)
next
  assume u: "category_id u = None \<or> find_category cats (category_id u) = None
        \<or> has_category_type cats ''transfer'' u"
  have "find_category cats None = None"
    by (simp add: find_category_def find_None_iff)
  with u have no: "\<not> has_category_type cats ''income'' u" "\<not> has_category_type cats ''expense'' u"
    by (auto simp: has_category_type_def split: option.splits)
  show "totalIncome cats (xs @ u # ys) = totalIncome cats (xs @ ys)"
    using no by (simp add: totalIncome_sum)
  show "totalExpenses cats (xs @ u # ys) = totalExpenses cats (xs @ ys)"
    using no by (simp add: totalExpenses_sum)
next
  assume a: "\<forall>t\<in>set txs. num_val (amount t) = amount_base t \<and> category_id t \<noteq> Some 0"
  show i: "dashboard_totalIncome cats txs = totalIncome cats txs"
    by (simp add: dashboard_totalIncome_sum totalIncome_sum sum_agree[OF a])
  show e: "dashboard_totalExpenses cats txs = totalExpenses cats txs"
    by (simp add: dashboard_totalExpenses_sum totalExpenses_sum sum_agree[OF a])
  show "profitAndLoss cats txs = netAmount cats txs"
    by (simp add: profitAndLoss_def netAmount_def i e)
qed

lemma ex_tx_sel:
  "amount_pkr (ex_tx i a v c d) = JDec v" "amount (ex_tx i a v c d) = JDec v"
  "category_id (ex_tx i a v c d) = c" "account_id (ex_tx i a v c d) = a"
  "transaction_date (ex_tx i a v c d) = d"
  by (simp_all add: ex_tx_def)

lemma ex_has_type:
  "has_category_type ex_categories ty (ex_tx i a v c d) =
     (c = Some 1 \<and> ty = ''income'' \<or> c = Some 2 \<and> ty = ''expense'' \<or> c = Some 3 \<and> ty = ''transfer'')"
  by (auto simp: has_category_type_def find_category_def ex_categories_def ex_tx_def)

theorem totals_by_category_type_witness:
  "totalIncome ex_categories ex_transactions = Fin 500
   \<and> totalExpenses ex_categories ex_transactions = Fin 200
   \<and> netAmount ex_categories ex_transactions = Fin 300
   \<and> has_category_type ex_categories ''transfer'' (ex_tx 3 1 (- 300) (Some 3) ''2024-01-15'')
   \<and> totalIncome ex_categories ([ex_tx 2 1 500 (Some 1) ''2024-01-02''] @ ex_tx 3 1 (- 300) (Some 3) ''2024-01-15'' # [])
       = totalIncome ex_categories ([ex_tx 2 1 500 (Some 1) ''2024-01-02''] @ [])
   \<and> dashboard_totalIncome ex_categories ex_transactions = Fin 500
   \<and> dashboard_totalExpenses ex_categories ex_transactions = Fin 200
   \<and> profitAndLoss ex_categories ex_transactions = Fin 300"
proof -
  have amt: "amount_base (ex_tx i a v c d) = v" "num_val (amount (ex_tx i a v c d)) = v" 
    "category_id (ex_tx i a v c d) = c" for i a v c d
    by (simp_all add: amount_base_def ex_tx_def)
  have h: "\<forall>t\<in>set ex_transactions. num_val (amount t) = amount_base t \<and> category_id t \<noteq> Some 0"
    by (simp add: ex_transactions_def amt)
  have tr: "has_category_type ex_categories ''transfer'' (ex_tx 3 1 (- 300) (Some 3) ''2024-01-15'')"
    by (simp add: ex_has_type)
  note T = totals_by_category_type[of ex_categories ex_transactions "ex_tx 3 1 (- 300) (Some 3) ''2024-01-15''"
      "[ex_tx 2 1 500 (Some 1) ''2024-01-02'']" "[]"]
  have inc: "(\<Sum>t\<leftarrow>filter (has_category_type ex_categories ''income'') ex_transactions. \<bar>amount_base t\<bar>) = 500"
    by (simp add: ex_transactions_def ex_has_type amt)
  have exp: "(\<Sum>t\<leftarrow>filter (has_category_type ex_categories ''expense'') ex_transactions. \<bar>amount_base t\<bar>) = 200"
    by (simp add: ex_transactions_def ex_has_type amt)
  show ?thesis using T h tr by (simp add: inc exp)
qed

text \<open>
  The totals are not the signed sums of \<open>amount_base\<close>: one rent payment stored as \<open>-200\<close>
  gives the expense total \<open>200\<close> and the net amount \<open>-200\<close>.
\<close>

theorem totals_signed_sum_counterexample:
  "totalExpenses ex_categories [ex_tx 1 1 (- 200) (Some 2) ''2024-01-01''] = Fin 200
   \<and> sum_list (map amount_base
        (filter (has_category_type ex_categories ''expense'') [ex_tx 1 1 (- 200) (Some 2) ''2024-01-01'']))
       = - 200
   \<and> netAmount ex_categories [ex_tx 1 1 (- 200) (Some 2) ''2024-01-01''] = Fin (- 200)"
  by (simp add: totalExpenses_def totalIncome_def netAmount_def ex_has_type amount_base_def
        ex_tx_sel or_zero_def)

section \<open>Opening balance\<close>
















section \<open>The category types of the category form\<close>

lemma choose_type_cases:
  "cf_category_type (choose_type i fd) = ''income''
   \<or> cf_category_type (choose_type i fd) = ''expense''
   \<or> cf_category_type (choose_type i fd) = cf_category_type fd"
  by (cases i rule: nat.exhaust; cases "i - 1") (auto simp: choose_type_def categoryTypes_def)

lemma choices_from:
  "cf_category_type (foldl (\<lambda>fd i. choose_type i fd) fd0 choices)
     \<in> {''income'', ''expense'', cf_category_type fd0}"
proof (induction choices rule: rev_induct)
  case Nil
  then show ?case by simp
next
  case (snoc i choices)
  then show ?case
    using choose_type_cases[of i "foldl (\<lambda>fd i. choose_type i fd) fd0 choices"] by auto
qed

text \<open>
  C6 (as amended). The category form offers exactly the types income and expense, both
  among the three recognized values income, expense and transfer. A category created
  through the form has type income or expense whatever is chosen, and an edited category
  has type income, expense or the type it had.
\<close>

theorem category_form_choices:
  "map opt_value categoryTypes = [''income'', ''expense'']
   \<and> list_all recognized (map opt_value categoryTypes)
   \<and> cf_category_type (foldl (\<lambda>fd i. choose_type i fd) (category_openModal None) choices)
       \<in> {''income'', ''expense''}
   \<and> cf_category_type (foldl (\<lambda>fd i. choose_type i fd) (category_openModal (Some c)) choices)
       \<in> {''income'', ''expense'', category_type c}"
proof -
  have n: "cf_category_type (category_openModal None) = ''income''"
    and e: "cf_category_type (category_openModal (Some c)) = category_type c"
    by (simp_all add: category_openModal_def)
  have a: "cf_category_type (foldl (\<lambda>fd i. choose_type i fd) (category_openModal None) choices)
       \<in> {''income'', ''expense''}"
    using choices_from[of "category_openModal None" choices] unfolding n by blast
  have b: "cf_category_type (foldl (\<lambda>fd i. choose_type i fd) (category_openModal (Some c)) choices)
       \<in> {''income'', ''expense'', category_type c}"
    using choices_from[of "category_openModal (Some c)" choices] unfolding e by blast
  have c: "map opt_value categoryTypes = [''income'', ''expense'']"
    by (simp add: categoryTypes_def)
  have d: "list_all recognized (map opt_value categoryTypes)"
    by (simp add: categoryTypes_def recognized_def)
  show ?thesis using a b c d by blast
qed

text \<open>The recognized type transfer is not among the choices of the category form.\<close>

theorem transfer_not_offered_counterexample:
  "recognized ''transfer'' \<and> ''transfer'' \<notin> set (map opt_value categoryTypes)"
  by (simp add: recognized_def categoryTypes_def)

section \<open>The amount of a submitted transaction\<close>

text \<open>
  C7. Every \<open>transactionData\<close> that the form submits carries a number \<open>\<ge> 0\<close> as its
  amount; a negative entry keeps the form from submitting; and a transaction opened for
  editing shows \<open>Math.abs\<close> of its stored amount, which is \<open>|a|\<close> for a stored number \<open>a\<close>.
\<close>

theorem submitted_amount_nonnegative:
  "(submit fd = Some td \<longrightarrow> (\<exists>r. td_amount td = Fin r \<and> 0 \<le> r))
   \<and> (r < 0 \<longrightarrow> submit (amount_onChange (Some r) fd) = None)
   \<and> fd_amount (openModal today (Some t)) = JNum (Math_abs (amount t))
   \<and> (ToNumber (amount t) = Fin a \<longrightarrow> fd_amount (openModal today (Some t)) = JNum (Fin \<bar>a\<bar>))"
proof (intro conjI impI)
  assume "submit fd = Some td"
  then have v: "amount_input_valid (fd_amount fd)" and td: "td = handleSubmit fd"
    by (auto simp: submit_def form_valid_def split: if_splits)
  from v obtain r where "parseFloat (fd_amount fd) = Fin r" "0 \<le> r"
    by (cases "fd_amount fd" rule: amount_input_valid.cases) auto
  then show "\<exists>r. td_amount td = Fin r \<and> 0 \<le> r"
    using td by (simp add: handleSubmit_def)
next
  show "fd_amount (openModal today (Some t)) = JNum (Math_abs (amount t))"
    by (simp add: openModal_def)
  show "fd_amount (openModal today (Some t)) = JNum (Fin \<bar>a\<bar>)" if "ToNumber (amount t) = Fin a"
    using that by (simp add: openModal_def Math_abs_def)
  show "submit (amount_onChange (Some r) fd) = None" if "r < 0"
    using that by (simp add: submit_def form_valid_def amount_onChange_def)
qed

theorem submitted_amount_nonnegative_witness:
  "(\<exists>td. submit (ex_form 3 300 ''Bank'') = Some td \<and> td_amount td = Fin 300)
   \<and> (- 5 :: real) < 0 \<and> submit (amount_onChange (Some (- 5)) (ex_form 3 300 ''Bank'')) = None
   \<and> ToNumber (amount (ex_tx 1 1 (- 200) (Some 2) ''2024-01-01'')) = Fin (- 200)
   \<and> fd_amount (openModal ''2024-03-01'' (Some (ex_tx 1 1 (- 200) (Some 2) ''2024-01-01'')))
       = JNum (Fin 200)"
proof -
  let ?fd = "ex_form 3 300 ''Bank''"
  let ?t = "ex_tx 1 1 (- 200) (Some 2) ''2024-01-01''"
  have s: "submit ?fd = Some (handleSubmit ?fd)"
    by (simp add: submit_def form_valid_def ex_form_def step_ok_def)
  have n: "ToNumber (amount ?t) = Fin (- 200)" by (simp add: ex_tx_sel)
  note T = submitted_amount_nonnegative[of ?fd "handleSubmit ?fd" "- 5" "''2024-03-01''" ?t "- 200"]
  from T s have "\<exists>r. td_amount (handleSubmit ?fd) = Fin r \<and> 0 \<le> r" by blast
  moreover have "td_amount (handleSubmit ?fd) = Fin 300"
    by (simp add: handleSubmit_def ex_form_def)
  moreover have neg: "(- 5 :: real) < 0" by simp
  moreover from T neg have "submit (amount_onChange (Some (- 5)) ?fd) = None" by blast
  moreover from T n have "fd_amount (openModal ''2024-03-01'' (Some ?t)) = JNum (Fin \<bar>- 200\<bar>)"
    by blast
  then have "fd_amount (openModal ''2024-03-01'' (Some ?t)) = JNum (Fin 200)" by simp
  ultimately show ?thesis using s n by blast
qed

section \<open>Formatting an amount that is not a number\<close>

text \<open>
  C8. For the amounts \<open>NaN\<close>, \<open>null\<close> and \<open>undefined\<close> and every currency, given or left
  out, \<open>formatCurrency\<close> returns the currency symbol followed by \<open>0.00\<close> and
  \<open>formatCurrencyCompact\<close> returns the symbol followed by \<open>0\<close>, where the symbol is \<open>$\<close>
  for USD and \<open>Rs.\<close> otherwise. The result does not depend on \<open>Intl.NumberFormat\<close> or
  \<open>toFixed\<close>, which are not called, so nothing is thrown.
\<close>

theorem format_invalid_amount:
  "formatCurrency Intl_format toFixed (JNum NaN) cur
     = (if cur = Some ''USD'' then ''$0.00'' else ''Rs.0.00'')
   \<and> formatCurrency Intl_format toFixed JNull cur
     = (if cur = Some ''USD'' then ''$0.00'' else ''Rs.0.00'')
   \<and> formatCurrency Intl_format toFixed JUndefined cur
     = (if cur = Some ''USD'' then ''$0.00'' else ''Rs.0.00'')
   \<and> formatCurrencyCompact toFixed (JNum NaN) cur
     = (if cur = Some ''USD'' then ''$0'' else ''Rs.0'')
   \<and> formatCurrencyCompact toFixed JNull cur
     = (if cur = Some ''USD'' then ''$0'' else ''Rs.0'')
   \<and> formatCurrencyCompact toFixed JUndefined cur
     = (if cur = Some ''USD'' then ''$0'' else ''Rs.0'')"
  by (cases cur) (simp_all add: formatCurrency_def formatCurrencyCompact_def isNaN_def Let_def)

section \<open>The result of applyFilters\<close>

lemma applyFilters_transactions:
  "transactions (applyFilters arg s)
     = filter (passes (filters s)) (case arg of None \<Rightarrow> allTransactions s | Some xs \<Rightarrow> xs)"
proof -
  have "passes (filters s) = (\<lambda>t.
     (case accountId (filters s) of None \<Rightarrow> True | Some a \<Rightarrow> account_id t = a)
     \<and> (case categoryId (filters s) of None \<Rightarrow> True | Some c \<Rightarrow> category_id t = Some c)
     \<and> (if startDate (filters s) = [] then True else startDate (filters s) \<le> transaction_date t)
     \<and> (if endDate (filters s) = [] then True else transaction_date t \<le> endDate (filters s)))"
    by (simp add: passes_def fun_eq_iff)
  then show ?thesis
    by (cases "accountId (filters s)"; cases "categoryId (filters s)")
       (auto simp: applyFilters_def Let_def intro!: filter_cong)
qed

text \<open>
  C9. For every list of transactions and every filter setting, \<open>applyFilters\<close> lists exactly
  the transactions of the input that pass each filter that is set: the selected account,
  the selected category, a date not below the start date and not above the end date, both
  bounds included (dates are compared as strings; for the form \<open>YYYY-MM-DD\<close> this is the
  calendar order, as \<open>iso_date_le\<close> below shows). The result keeps the order of the
  input, and the state's \<open>allTransactions\<close> and \<open>filters\<close> are unchanged.
\<close>

theorem applyFilters_exact:
  "transactions (applyFilters arg s)
     = filter (passes (filters s)) (case arg of None \<Rightarrow> allTransactions s | Some xs \<Rightarrow> xs)
   \<and> subseq (transactions (applyFilters arg s))
        (case arg of None \<Rightarrow> allTransactions s | Some xs \<Rightarrow> xs)
   \<and> allTransactions (applyFilters arg s) = allTransactions s
   \<and> filters (applyFilters arg s) = filters s
   \<and> passes f t =
       ((accountId f = None \<or> accountId f = Some (account_id t))
        \<and> (categoryId f = None \<or> (\<exists>c. categoryId f = Some c \<and> category_id t = Some c))
        \<and> (startDate f = [] \<or> startDate f \<le> transaction_date t)
        \<and> (endDate f = [] \<or> transaction_date t \<le> endDate f))"
proof (intro conjI)
  show "transactions (applyFilters arg s)
     = filter (passes (filters s)) (case arg of None \<Rightarrow> allTransactions s | Some xs \<Rightarrow> xs)"
    by (rule applyFilters_transactions)
  then show "subseq (transactions (applyFilters arg s))
        (case arg of None \<Rightarrow> allTransactions s | Some xs \<Rightarrow> xs)"
    by simp
  show "allTransactions (applyFilters arg s) = allTransactions s"
    by (simp add: applyFilters_def Let_def)
  show "filters (applyFilters arg s) = filters s"
    by (simp add: applyFilters_def Let_def)
  show "passes f t =
       ((accountId f = None \<or> accountId f = Some (account_id t))
        \<and> (categoryId f = None \<or> (\<exists>c. categoryId f = Some c \<and> category_id t = Some c))
        \<and> (startDate f = [] \<or> startDate f \<le> transaction_date t)
        \<and> (endDate f = [] \<or> transaction_date t \<le> endDate f))"
    by (auto simp: passes_def split: option.splits)
qed

theorem applyFilters_exact_witness:
  "map tx_id (transactions (applyFilters None
      \<lparr> allTransactions = ex_transactions, transactions = [],
        filters = \<lparr> accountId = Some 2, categoryId = None,
                    startDate = ''2024-01-15'', endDate = ''2024-01-31'' \<rparr> \<rparr>)) = [4, 5]"
proof -
  let ?f = "\<lparr> accountId = Some 2, categoryId = None,
              startDate = ''2024-01-15'', endDate = ''2024-01-31'' \<rparr>"
  let ?s = "\<lparr> allTransactions = ex_transactions, transactions = [], filters = ?f \<rparr>"
  have p: "passes ?f (ex_tx i a v c d)
             \<longleftrightarrow> a = 2 \<and> ''2024-01-15'' \<le> d \<and> d \<le> ''2024-01-31''" for i a v c d
    by (auto simp: passes_def ex_tx_sel)
  have "transactions (applyFilters None ?s) = filter (passes ?f) ex_transactions"
    using applyFilters_exact[of None ?s] by simp
  then show ?thesis
    by (simp add: ex_transactions_def p) (simp add: ex_tx_def)
qed


subsection \<open>String order and calendar order\<close>

lemma of_char_digit: "a < 10 \<Longrightarrow> of_char (digit a) = 48 + a"
  by (simp add: digit_def)

lemma digit_less: "a < 10 \<Longrightarrow> b < 10 \<Longrightarrow> digit a < digit b \<longleftrightarrow> a < b"
  by (simp add: less_char_def of_char_digit)

lemma digit_eq: 
  assumes "a < 10" "b < 10" shows "digit a = digit b \<longleftrightarrow> a = b"
proof
  assume "digit a = digit b"
  then have "(of_char (digit a) :: nat) = of_char (digit b)" by (rule arg_cong)
  then show "a = b" using assms by (simp add: of_char_digit)
next
  assume "a = b" then show "digit a = digit b" by (rule arg_cong)
qed

lemma lex10:
  "r1 < (10::nat) \<Longrightarrow> r2 < 10 \<Longrightarrow>
     (10 * q1 + r1 < 10 * q2 + r2) = (q1 < q2 \<or> (q1 = q2 \<and> r1 < r2))"
  by arith

lemma eq10:
  assumes "r1 < (10::nat)" "r2 < 10"
  shows "(10 * q1 + r1 = 10 * q2 + r2) = (q1 = q2 \<and> r1 = r2)"
proof
  assume h: "10 * q1 + r1 = 10 * q2 + r2"
  then have "(10 * q1 + r1) div 10 = (10 * q2 + r2) div 10" by simp
  then have q: "q1 = q2" using assms by simp
  with h show "q1 = q2 \<and> r1 = r2" by simp
qed simp

lemma less_div_mod10: "(m::nat) < n \<longleftrightarrow> m div 10 < n div 10 \<or> (m div 10 = n div 10 \<and> m mod 10 < n mod 10)"
proof -
  have "m < n \<longleftrightarrow> 10 * (m div 10) + m mod 10 < 10 * (n div 10) + n mod 10" by simp
  also have "\<dots> \<longleftrightarrow> m div 10 < n div 10 \<or> (m div 10 = n div 10 \<and> m mod 10 < n mod 10)"
    by (rule lex10) simp_all
  finally show ?thesis .
qed

lemma eq_div_mod10: "(m::nat) = n \<longleftrightarrow> m div 10 = n div 10 \<and> m mod 10 = n mod 10"
proof -
  have "m = n \<longleftrightarrow> 10 * (m div 10) + m mod 10 = 10 * (n div 10) + n mod 10" by simp
  also have "\<dots> \<longleftrightarrow> m div 10 = n div 10 \<and> m mod 10 = n mod 10"
    by (rule eq10) simp_all
  finally show ?thesis .
qed

lemma lex_prop: "(A \<or> (B \<and> (C \<or> (D \<and> S)))) = ((A \<or> (B \<and> C)) \<or> ((B \<and> D) \<and> S))"
  by blast

lemma two_digits_le:
  assumes "m < 100" "n < 100"
  shows "two_digits m @ s \<le> two_digits n @ t \<longleftrightarrow> m < n \<or> (m = n \<and> s \<le> t)"
proof -
  have a: "m div 10 < 10" "n div 10 < 10" "m mod 10 < 10" "n mod 10 < 10" using assms by auto
  have "two_digits m @ s \<le> two_digits n @ t \<longleftrightarrow>
     digit (m div 10) < digit (n div 10) \<or> (digit (m div 10) = digit (n div 10) \<and> 
       (digit (m mod 10) < digit (n mod 10) \<or> (digit (m mod 10) = digit (n mod 10) \<and> s \<le> t)))"
    unfolding two_digits_def by simp
  also have "\<dots> \<longleftrightarrow> m div 10 < n div 10 \<or> (m div 10 = n div 10 \<and> (m mod 10 < n mod 10 \<or> (m mod 10 = n mod 10 \<and> s \<le> t)))"
    unfolding digit_less[OF a(1,2)] digit_less[OF a(3,4)] digit_eq[OF a(1,2)] digit_eq[OF a(3,4)] ..
  finally show ?thesis
    unfolding less_div_mod10[of m n] eq_div_mod10[of m n] lex_prop .
qed

lemma lex100: "r1 < (100::nat) \<Longrightarrow> r2 < 100 \<Longrightarrow> (100 * q1 + r1 < 100 * q2 + r2) = (q1 < q2 \<or> (q1 = q2 \<and> r1 < r2))"
  by arith

lemma eq100:
  assumes "r1 < (100::nat)" "r2 < 100"
  shows "(100 * q1 + r1 = 100 * q2 + r2) = (q1 = q2 \<and> r1 = r2)"
proof
  assume h: "100 * q1 + r1 = 100 * q2 + r2"
  then have "(100 * q1 + r1) div 100 = (100 * q2 + r2) div 100" by simp
  then have q: "q1 = q2" using assms by simp
  with h show "q1 = q2 \<and> r1 = r2" by simp
qed simp

lemma less_div_mod100: "(y::nat) < z \<longleftrightarrow> y div 100 < z div 100 \<or> (y div 100 = z div 100 \<and> y mod 100 < z mod 100)"
proof -
  have "y < z \<longleftrightarrow> 100 * (y div 100) + y mod 100 < 100 * (z div 100) + z mod 100" by simp
  also have "\<dots> \<longleftrightarrow> y div 100 < z div 100 \<or> (y div 100 = z div 100 \<and> y mod 100 < z mod 100)"
    by (rule lex100) simp_all
  finally show ?thesis .
qed

lemma eq_div_mod100: "(y::nat) = z \<longleftrightarrow> y div 100 = z div 100 \<and> y mod 100 = z mod 100"
proof -
  have "y = z \<longleftrightarrow> 100 * (y div 100) + y mod 100 = 100 * (z div 100) + z mod 100" by simp
  also have "\<dots> \<longleftrightarrow> y div 100 = z div 100 \<and> y mod 100 = z mod 100"
    by (rule eq100) simp_all
  finally show ?thesis .
qed

lemma four_digits_le:
  assumes "y < 10000" "z < 10000"
  shows "four_digits y @ s \<le> four_digits z @ t \<longleftrightarrow> y < z \<or> (y = z \<and> s \<le> t)"
proof -
  have a: "y div 100 < 100" "z div 100 < 100" "y mod 100 < 100" "z mod 100 < 100" using assms by auto
  have "four_digits y @ s \<le> four_digits z @ t \<longleftrightarrow>
      two_digits (y div 100) @ (two_digits (y mod 100) @ s) \<le> two_digits (z div 100) @ (two_digits (z mod 100) @ t)"
    unfolding four_digits_def append_assoc ..
  also have "\<dots> \<longleftrightarrow> y div 100 < z div 100 \<or> (y div 100 = z div 100 \<and> (y mod 100 < z mod 100 \<or> (y mod 100 = z mod 100 \<and> s \<le> t)))"
    unfolding two_digits_le[OF a(1,2)] two_digits_le[OF a(3,4)] ..
  finally show ?thesis
    unfolding less_div_mod100[of y z] eq_div_mod100[of y z] lex_prop .
qed

lemma dash_le: "''-'' @ s \<le> ''-'' @ t \<longleftrightarrow> s \<le> t"
  by simp

text \<open>
  For dates in the form \<open>YYYY-MM-DD\<close> the string comparison of \<open>applyFilters\<close> is the
  comparison of the calendar dates.
\<close>

theorem iso_date_le:
  assumes "y < 10000" "z < 10000" "m < 100" "n < 100" "d < 100" "e < 100"
  shows "iso_date y m d \<le> iso_date z n e \<longleftrightarrow> y < z \<or> (y = z \<and> (m < n \<or> (m = n \<and> d \<le> e)))"
proof -
  have "two_digits d @ [] \<le> two_digits e @ [] \<longleftrightarrow> d < e \<or> (d = e \<and> ([]::string) \<le> [])"
    by (rule two_digits_le[OF assms(5,6)])
  then have de: "two_digits d \<le> two_digits e \<longleftrightarrow> d \<le> e"
    unfolding append_Nil2 le_eq_less_or_eq[of d e] by simp
  show ?thesis
    unfolding iso_date_def four_digits_le[OF assms(1,2)] dash_le two_digits_le[OF assms(3,4)] de ..
qed

theorem iso_date_le_witness:
  "iso_date 2024 1 15 = ''2024-01-15'' \<and> iso_date 2024 1 31 = ''2024-01-31''
   \<and> iso_date 2024 1 15 \<le> iso_date 2024 1 31 \<and> \<not> iso_date 2024 2 1 \<le> iso_date 2024 1 31"
proof -
  have a: "iso_date 2024 1 15 = ''2024-01-15''" "iso_date 2024 1 31 = ''2024-01-31''"
    by code_simp+
  have b: "iso_date 2024 1 15 \<le> iso_date 2024 1 31"
    using iso_date_le[of 2024 2024 1 1 15 31] by simp
  have c: "\<not> iso_date 2024 2 1 \<le> iso_date 2024 1 31"
    using iso_date_le[of 2024 2024 2 1 1 31] by simp
  show ?thesis using a b c by blast
qed

section \<open>Transitions of the dashboard filter\<close>

text \<open>
  C10. A manual change of \<open>startDate\<close> or \<open>endDate\<close> stores the value and sets \<open>timeRange\<close>
  to \<open>custom\<close>; selecting \<open>all\<close> empties both dates; selecting \<open>thisMonth\<close>,
  \<open>lastMonth\<close>, \<open>thisYear\<close> or \<open>lastYear\<close> sets both dates to the start and end that
  \<open>getTimeRangeOptions\<close> computed for that range. The other fields keep their values.
\<close>

theorem dashboard_filter_transitions:
  "handleFilterChange ''startDate'' v flt = flt\<lparr> df_startDate := v, df_timeRange := ''custom'' \<rparr>
   \<and> handleFilterChange ''endDate'' v flt = flt\<lparr> df_endDate := v, df_timeRange := ''custom'' \<rparr>
   \<and> handleTimeRangeChange ranges ''all'' flt
       = flt\<lparr> df_timeRange := ''all'', df_startDate := [], df_endDate := [] \<rparr>
   \<and> handleTimeRangeChange ranges ''thisMonth'' flt
       = flt\<lparr> df_timeRange := ''thisMonth'', df_startDate := range_start (thisMonth ranges),
               df_endDate := range_end (thisMonth ranges) \<rparr>
   \<and> handleTimeRangeChange ranges ''lastMonth'' flt
       = flt\<lparr> df_timeRange := ''lastMonth'', df_startDate := range_start (lastMonth ranges),
               df_endDate := range_end (lastMonth ranges) \<rparr>
   \<and> handleTimeRangeChange ranges ''thisYear'' flt
       = flt\<lparr> df_timeRange := ''thisYear'', df_startDate := range_start (thisYear ranges),
               df_endDate := range_end (thisYear ranges) \<rparr>
   \<and> handleTimeRangeChange ranges ''lastYear'' flt
       = flt\<lparr> df_timeRange := ''lastYear'', df_startDate := range_start (lastYear ranges),
               df_endDate := range_end (lastYear ranges) \<rparr>"
  by (simp add: handleFilterChange_def set_field_def handleTimeRangeChange_def range_of_def Let_def)

end
